theory Spec2Isabelle
  imports Main
begin

section \<open>JavaScript values, thrown errors and string primitives\<close>

text \<open>
  The validators of \<open>src/utils.ts\<close> are called from untyped JavaScript (the tests pass a
  number where a string is declared), so their arguments are runtime values. Numbers are
  only ever inspected through \<open>typeof\<close>, \<open>Array.isArray\<close> and truthiness here.
\<close>

datatype js_value =
    JUndefined
  | JNull
  | JBool bool
  | JNumber int
  | JString string
  | JArray "js_value list"

text \<open>\<open>typeof v === "string"\<close> and \<open>Array.isArray(v)\<close>.\<close>

fun is_string :: "js_value \<Rightarrow> bool" where
  "is_string (JString s) = True"
| "is_string _ = False"

fun is_array :: "js_value \<Rightarrow> bool" where
  "is_array (JArray xs) = True"
| "is_array _ = False"

text \<open>A thrown value: the constructor that built it and its message.\<close>

datatype js_error = Error string | TypeError string | RangeError string

text \<open>\<open>s.startsWith(p)\<close> and \<open>s.includes(p)\<close> of JavaScript strings.\<close>

definition startsWith :: "string \<Rightarrow> string \<Rightarrow> bool" where
  "startsWith s p = (take (length p) s = p)"

fun str_includes :: "string \<Rightarrow> string \<Rightarrow> bool" where
  "str_includes [] p = (p = [])"
| "str_includes (c # s) p = (startsWith (c # s) p \<or> str_includes s p)"

text \<open>JavaScript truthiness of a string-or-undefined value: \<open>undefined\<close> and \<open>""\<close> are falsy.\<close>

fun truthy :: "string option \<Rightarrow> bool" where
  "truthy None = False"
| "truthy (Some s) = (s \<noteq> [])"


section \<open>Regular expressions\<close>

text \<open>
  The patterns of \<open>utils.ts\<close> use character classes, concatenation, \<open>*\<close>, \<open>+\<close>, \<open>?\<close>
  and grouping only, and are anchored at both ends, so \<open>pattern.test(s)\<close> is membership of
  the whole of \<open>s\<close> in the pattern's language. The matcher runs by derivatives.
\<close>

datatype regex =
    Nul
  | Eps
  | Cls "char \<Rightarrow> bool"
  | Alt regex regex
  | Cat regex regex
  | Rep regex

definition Opt :: "regex \<Rightarrow> regex" where
  "Opt r = Alt r Eps"

definition Plus :: "regex \<Rightarrow> regex" where
  "Plus r = Cat r (Rep r)"

fun nullable :: "regex \<Rightarrow> bool" where
  "nullable Nul = False"
| "nullable Eps = True"
| "nullable (Cls p) = False"
| "nullable (Alt r s) = (nullable r \<or> nullable s)"
| "nullable (Cat r s) = (nullable r \<and> nullable s)"
| "nullable (Rep r) = True"

fun deriv :: "char \<Rightarrow> regex \<Rightarrow> regex" where
  "deriv c Nul = Nul"
| "deriv c Eps = Nul"
| "deriv c (Cls p) = (if p c then Eps else Nul)"
| "deriv c (Alt r s) = Alt (deriv c r) (deriv c s)"
| "deriv c (Cat r s) =
     (if nullable r then Alt (Cat (deriv c r) s) (deriv c s) else Cat (deriv c r) s)"
| "deriv c (Rep r) = Cat (deriv c r) (Rep r)"

fun regex_test :: "regex \<Rightarrow> string \<Rightarrow> bool" where
  "regex_test r [] = nullable r"
| "regex_test r (c # s) = regex_test (deriv c r) s"

text \<open>The character classes \<open>\d\<close>, \<open>[a-zA-Z0-9]\<close>, \<open>[a-zA-Z0-9-]\<close> and the literal dot.\<close>

definition digit :: "char \<Rightarrow> bool" where
  "digit c = (c \<in> set ''0123456789'')"

definition alnum :: "char \<Rightarrow> bool" where
  "alnum c = (c \<in> set ''abcdefghijklmnopqrstuvwxyzABCDEFGHIJKLMNOPQRSTUVWXYZ0123456789'')"

definition alnum_hyphen :: "char \<Rightarrow> bool" where
  "alnum_hyphen c = (alnum c \<or> c = CHR ''-'')"

definition dot :: "char \<Rightarrow> bool" where
  "dot c = (c = CHR ''.'')"


section \<open>Validation (\<open>src/utils.ts\<close>)\<close>

text \<open>
  One DNS label \<open>[a-zA-Z0-9]([a-zA-Z0-9-]*[a-zA-Z0-9])?\<close> and the pattern
  \<open>/^(label(\.label)*)$/\<close>.
\<close>

definition hostname_label :: regex where
  "hostname_label = Cat (Cls alnum) (Opt (Cat (Rep (Cls alnum_hyphen)) (Cls alnum)))"

definition VALID_HOSTNAME_PATTERN :: regex where
  "VALID_HOSTNAME_PATTERN = Cat hostname_label (Rep (Cat (Cls dot) hostname_label))"

text \<open>The pattern \<open>/^\d+(\.\d+)*$/\<close> of \<open>validateTarget\<close>.\<close>

definition looksLikeIPv4 :: regex where
  "looksLikeIPv4 = Cat (Plus (Cls digit)) (Rep (Cat (Cls dot) (Plus (Cls digit))))"

text \<open>The repeated part \<open>(\.\d+)*\<close> of that pattern.\<close>

definition dot_groups :: regex where
  "dot_groups = Rep (Cat (Cls dot) (Plus (Cls digit)))"

text \<open>
  \<open>ipaddr.parse\<close> and \<open>ipaddr.parseCIDR\<close> belong to the dependency \<open>ipaddr.js\<close>, whose
  source is not part of the repository. Both validators only observe whether the call
  throws, so the parser is a parameter returning \<open>None\<close> where it throws.
\<close>

definition isValidIPAddress :: "(string \<Rightarrow> 'a option) \<Rightarrow> string \<Rightarrow> bool" where
  "isValidIPAddress parse ip =
     (case parse ip of Some _ \<Rightarrow> True | None \<Rightarrow> False)"

definition isValidCIDR :: "(string \<Rightarrow> 'a option) \<Rightarrow> string \<Rightarrow> bool" where
  "isValidCIDR parseCIDR cidr =
     (case parseCIDR cidr of Some _ \<Rightarrow> True | None \<Rightarrow> False)"

text \<open>An element that passes both checks of the loop of \<open>validateRoutes\<close>.\<close>

definition valid_route :: "(string \<Rightarrow> 'a option) \<Rightarrow> js_value \<Rightarrow> bool" where
  "valid_route parseCIDR v =
     (case v of JString route \<Rightarrow> isValidCIDR parseCIDR route | _ \<Rightarrow> False)"

definition DANGEROUS_CHARS :: "string list" where
  "DANGEROUS_CHARS =
     ['';'', ''&'', ''|'', [CHR 0x60], ''$'', ''('', '')'', ''{'', ''}'', ''['', '']'',
      ''<'', ''>'', [CHR 0x5C], [CHR 0x27], [CHR 0x22]]"

definition DANGEROUS_CHARS_BASIC :: "string list" where
  "DANGEROUS_CHARS_BASIC =
     ['';'', ''&'', ''|'', [CHR 0x60], ''$'', ''('', '')'', ''{'', ''}'', ''<'', ''>'',
      [CHR 0x5C]]"

text \<open>
  The loop \<open>for (const char of CHARS) if (s.includes(char)) throw ...\<close>: the first entry of
  the list that occurs in the string, if any.
\<close>

fun first_included :: "string \<Rightarrow> string list \<Rightarrow> string option" where
  "first_included s [] = None"
| "first_included s (ch # chs) = (if str_includes s ch then Some ch else first_included s chs)"

definition quoted :: "string \<Rightarrow> string" where
  "quoted ch = [CHR 0x27] @ ch @ [CHR 0x27]"

text \<open>
  \<open>validateTarget\<close>. A value that is not a string fails \<open>typeof target !== "string"\<close> and
  the empty string fails \<open>!target\<close>; every other falsy value is not a string.
\<close>

definition validateTarget :: "(string \<Rightarrow> 'a option) \<Rightarrow> js_value \<Rightarrow> js_error + unit" where
  "validateTarget parse v =
     (case v of
        JString target \<Rightarrow>
          if target = [] then Inl (Error ''Invalid target specified'')
          else
            (case first_included target DANGEROUS_CHARS of
               Some ch \<Rightarrow> Inl (Error (''Invalid character '' @ quoted ch @ '' in target''))
             | None \<Rightarrow>
                 if str_includes target ''..'' \<or> startsWith target ''/'' \<or> str_includes target ''~''
                 then Inl (Error ''Target contains invalid characters or format'')
                 else if length target > 253 then Inl (Error ''Target too long'')
                 else if isValidIPAddress parse target then Inr ()
                 else if regex_test looksLikeIPv4 target
                 then Inl (Error ''Invalid IPv4 address format'')
                 else if str_includes target '':''
                 then Inl (Error ''Invalid IPv6 address format'')
                 else if regex_test VALID_HOSTNAME_PATTERN target then Inr ()
                 else Inl (Error ''Target must be a valid IP address or hostname''))
      | _ \<Rightarrow> Inl (Error ''Invalid target specified''))"

definition validateStringInput :: "js_value \<Rightarrow> string \<Rightarrow> js_error + unit" where
  "validateStringInput v fieldName =
     (case v of
        JString input \<Rightarrow>
          (case first_included input DANGEROUS_CHARS_BASIC of
             Some ch \<Rightarrow> Inl (Error (''Invalid character '' @ quoted ch @ '' in '' @ fieldName))
           | None \<Rightarrow>
               if length input > 1000 then Inl (Error (fieldName @ '' too long''))
               else Inr ())
      | _ \<Rightarrow> Inl (TypeError (fieldName @ '' must be a string'')))"

text \<open>
  \<open>validateRoutes\<close>: the loop checks each element in order, its type first and its CIDR
  syntax second, and throws at the first check that fails.
\<close>

fun validateRoutes_loop :: "(string \<Rightarrow> 'a option) \<Rightarrow> js_value list \<Rightarrow> js_error + unit" where
  "validateRoutes_loop parseCIDR [] = Inr ()"
| "validateRoutes_loop parseCIDR (JString route # routes) =
     (if \<not> isValidCIDR parseCIDR route
      then Inl (Error (''Invalid CIDR format: '' @ route))
      else validateRoutes_loop parseCIDR routes)"
| "validateRoutes_loop parseCIDR (_ # routes) =
     Inl (TypeError ''Each route must be a string'')"

definition validateRoutes :: "(string \<Rightarrow> 'a option) \<Rightarrow> js_value \<Rightarrow> js_error + unit" where
  "validateRoutes parseCIDR v =
     (case v of
        JArray routes \<Rightarrow> validateRoutes_loop parseCIDR routes
      | _ \<Rightarrow> Inl (TypeError ''Routes must be an array''))"


section \<open>The address parser\<close>

datatype ip_kind = IPv4 | IPv6

text \<open>\<open>s.split(c)\<close> for a one-character separator, and the value of a decimal numeral.\<close>

fun split_on :: "char \<Rightarrow> string \<Rightarrow> string list" where
  "split_on c [] = [[]]"
| "split_on c (x # xs) =
     (if x = c then [] # split_on c xs
      else (case split_on c xs of p # ps \<Rightarrow> (x # p) # ps | [] \<Rightarrow> [[x]]))"

definition digit_value :: "char \<Rightarrow> nat" where
  "digit_value c = of_char c - 48"

definition decimal :: "string \<Rightarrow> nat" where
  "decimal ds = foldl (\<lambda>n c. 10 * n + digit_value c) 0 ds"

definition hexdigit :: "char \<Rightarrow> bool" where
  "hexdigit c = (c \<in> set ''0123456789abcdefABCDEF'')"

text \<open>
  Modelled from the spec: \<open>ipaddr.parse\<close> of the dependency \<open>ipaddr.js\<close>, which is not
  under \<open>src/\<close>. The spec asks for "a syntactically valid IPv4 or IPv6 literal per standard
  parsing rules (rejects out-of-range octets, malformed compression, trailing garbage)":
  an IPv4 literal is four decimal octets of one to three digits, each at most 255; an IPv6
  literal is eight groups of one to four hexadecimal digits, where one run of groups may be
  compressed to \<open>::\<close> and the last two groups may be written as an IPv4 literal. The result
  is the family of the address, \<open>None\<close> where the parser throws.
\<close>

definition ipv4_octet :: "string \<Rightarrow> bool" where
  "ipv4_octet p = (p \<noteq> [] \<and> length p \<le> 3 \<and> list_all digit p \<and> decimal p \<le> 255)"

definition is_ipv4 :: "string \<Rightarrow> bool" where
  "is_ipv4 s = (let ps = split_on (CHR ''.'') s in length ps = 4 \<and> list_all ipv4_octet ps)"

definition ipv6_group :: "string \<Rightarrow> bool" where
  "ipv6_group g = (g \<noteq> [] \<and> length g \<le> 4 \<and> list_all hexdigit g)"

fun split_double_colon :: "string \<Rightarrow> (string \<times> string) option" where
  "split_double_colon (x # y # s) =
     (if x = CHR '':'' \<and> y = CHR '':'' then Some ([], s)
      else map_option (\<lambda>(l, r). (x # l, r)) (split_double_colon (y # s)))"
| "split_double_colon _ = None"

definition colon_pieces :: "string \<Rightarrow> string list" where
  "colon_pieces s = (if s = [] then [] else split_on (CHR '':'') s)"

text \<open>The number of 16-bit groups a list of pieces stands for, if each piece is well formed.\<close>

fun ipv6_groups :: "bool \<Rightarrow> string list \<Rightarrow> nat option" where
  "ipv6_groups tail [] = Some 0"
| "ipv6_groups tail [g] =
     (if ipv6_group g then Some 1 else if tail \<and> is_ipv4 g then Some 2 else None)"
| "ipv6_groups tail (g # gs) =
     (if ipv6_group g then map_option Suc (ipv6_groups tail gs) else None)"

definition is_ipv6 :: "string \<Rightarrow> bool" where
  "is_ipv6 s =
     (case split_double_colon s of
        None \<Rightarrow> ipv6_groups True (split_on (CHR '':'') s) = Some 8
      | Some (l, r) \<Rightarrow>
          (case (ipv6_groups False (colon_pieces l), ipv6_groups True (colon_pieces r)) of
             (Some a, Some b) \<Rightarrow> a + b \<le> 7
           | _ \<Rightarrow> False))"

definition ipaddr_parse :: "string \<Rightarrow> ip_kind option" where
  "ipaddr_parse s =
     (if is_ipv6 s then Some IPv6 else if is_ipv4 s then Some IPv4 else None)"

text \<open>The text before and after the last occurrence of a separator.\<close>

fun split_last :: "char \<Rightarrow> string \<Rightarrow> (string \<times> string) option" where
  "split_last c [] = None"
| "split_last c (x # xs) =
     (case split_last c xs of
        Some (a, b) \<Rightarrow> Some (x # a, b)
      | None \<Rightarrow> if x = c then Some ([], xs) else None)"

fun max_prefix :: "ip_kind \<Rightarrow> nat" where
  "max_prefix IPv4 = 32"
| "max_prefix IPv6 = 128"

text \<open>
  Modelled from the spec: \<open>ipaddr.parseCIDR\<close> of the dependency \<open>ipaddr.js\<close>, which is not
  under \<open>src/\<close>. The spec's \<open>isValidCIDR\<close> is "true iff \<open>s\<close> is \<open><ip>/<prefix>\<close> where the
  IP part is valid and the prefix is within \<open>[0,32]\<close> for IPv4 or \<open>[0,128]\<close> for IPv6"; the
  comments of \<open>isValidCIDR\<close> in \<open>utils.ts\<close> say the same of the library call. The prefix is
  a decimal numeral after the last slash; the address before it is handed to the address
  parser given as the first argument.
\<close>

definition ipaddr_parseCIDR ::
  "(string \<Rightarrow> ip_kind option) \<Rightarrow> string \<Rightarrow> (ip_kind \<times> nat) option" where
  "ipaddr_parseCIDR parse cidr =
     (case split_last (CHR ''/'') cidr of
        None \<Rightarrow> None
      | Some (ip, prefix) \<Rightarrow>
          if prefix = [] \<or> \<not> list_all digit prefix then None
          else
            (case parse ip of
               None \<Rightarrow> None
             | Some kind \<Rightarrow>
                 if decimal prefix \<le> max_prefix kind then Some (kind, decimal prefix)
                 else None))"


section \<open>OAuth token manager (\<open>src/tailscale/oauth.ts\<close>)\<close>

text \<open>
  An optional property of an object literal is either left out or given a value, and the
  value given may be \<open>undefined\<close> (\<open>None\<close>): \<open>fromEnvironment\<close> writes
  \<open>baseUrl: process.env.TAILSCALE_API_BASE_URL\<close> whether or not the variable is set.
\<close>

datatype 'a property = Omitted | Given 'a

record 'u OAuthConfig =
  clientId :: string
  clientSecret :: string
  baseUrl :: 'u

record OAuthTokenResponse =
  access_token :: string
  token_type :: string
  expires_in :: int
  scope :: "string option"

text \<open>
  The manager: the configuration after the defaults were merged in, the cached token and
  its expiry in milliseconds since the epoch (\<open>None\<close> is \<open>null\<close>).
\<close>

record TailscaleOAuthManager =
  config :: "string option OAuthConfig"
  accessToken :: "string option"
  tokenExpiry :: "int option"

definition expiryBuffer :: int where
  "expiryBuffer = 60"

definition default_baseUrl :: string where
  "default_baseUrl = ''https://api.tailscale.com''"

text \<open>
  The object spread \<open>{ baseUrl: "https://api.tailscale.com", ...config }\<close> copies every own
  property of \<open>config\<close> over the default, also one whose value is \<open>undefined\<close>.
\<close>

definition spread_defaults :: "string option property OAuthConfig \<Rightarrow> string option OAuthConfig" where
  "spread_defaults cfg =
     \<lparr>clientId = clientId cfg, clientSecret = clientSecret cfg,
      baseUrl = (case baseUrl cfg of Omitted \<Rightarrow> Some default_baseUrl | Given v \<Rightarrow> v)\<rparr>"

definition constructor :: "string option property OAuthConfig \<Rightarrow> js_error + TailscaleOAuthManager" where
  "constructor cfg =
     (let merged = spread_defaults cfg in
      if clientId merged = [] \<or> clientSecret merged = []
      then Inl (Error ''OAuth client ID and secret are required for OAuth authentication'')
      else Inr \<lparr>config = merged, accessToken = None, tokenExpiry = None\<rparr>)"

definition isTokenValid :: "TailscaleOAuthManager \<Rightarrow> int \<Rightarrow> bool" where
  "isTokenValid m now =
     (if \<not> truthy (accessToken m) then False
      else
        (case tokenExpiry m of
           None \<Rightarrow> False
         | Some expiry \<Rightarrow> expiry - now > expiryBuffer * 1000))"

text \<open>A value interpolated into a template literal.\<close>

fun template :: "string option \<Rightarrow> string" where
  "template None = ''undefined''"
| "template (Some s) = s"

text \<open>The request \<open>axios.post\<close> is given: URL, form fields, content type and timeout.\<close>

record token_request =
  req_url :: string
  req_form :: "(string \<times> string) list"
  req_content_type :: string
  req_timeout :: int

definition token_request_of :: "TailscaleOAuthManager \<Rightarrow> token_request" where
  "token_request_of m =
     \<lparr>req_url = template (baseUrl (config m)) @ ''/api/v2/oauth/token'',
      req_form = [(''client_id'', clientId (config m)),
                  (''client_secret'', clientSecret (config m))],
      req_content_type = ''application/x-www-form-urlencoded'',
      req_timeout = 30000\<rparr>"

text \<open>
  What the awaited \<open>axios.post\<close> does: it resolves with the response body, or rejects with
  an \<open>AxiosError\<close> (the body of the error response if there is one, with its
  \<open>error_description\<close> and \<open>error\<close> fields, and the error's own message), or rejects
  with some other thrown value.
\<close>

record error_data =
  error_description :: "string option"
  error :: "string option"

datatype axios_result =
    Resolved OAuthTokenResponse
  | RejectedAxios "error_data option" string
  | Rejected js_error

text \<open>\<open>a || b\<close> on strings that may be \<open>undefined\<close>.\<close>

definition or_else :: "string option \<Rightarrow> string option \<Rightarrow> string option" where
  "or_else a b = (if truthy a then a else b)"

definition errorMsg :: "error_data option \<Rightarrow> string \<Rightarrow> string option" where
  "errorMsg errorData msg =
     or_else (or_else (or_else (Option.bind errorData error_description)
                               (Option.bind errorData error))
                      (Some msg))
             (Some ''Failed to obtain OAuth token'')"

definition clear_token :: "TailscaleOAuthManager \<Rightarrow> TailscaleOAuthManager" where
  "clear_token m = m\<lparr>accessToken := None, tokenExpiry := None\<rparr>"

text \<open>
  A \<open>Date\<close> holds a time value of at most 8.64e15 ms in absolute value; beyond that it is
  an invalid date, and \<open>toISOString\<close> throws a \<open>RangeError\<close>.
\<close>

definition valid_time :: "int \<Rightarrow> bool" where
  "valid_time t = (\<bar>t\<bar> \<le> 8640000000000000)"

text \<open>
  \<open>refreshToken\<close>, given the outcome of the request and the clock reading \<open>Date.now()\<close>
  when the response has arrived. It returns the value returned or thrown, the manager
  afterwards and the requests sent. \<open>expires_in\<close> is taken to be an integer.
\<close>

definition refreshToken ::
  "TailscaleOAuthManager \<Rightarrow> axios_result \<Rightarrow> int \<Rightarrow>
     (js_error + string) \<times> TailscaleOAuthManager \<times> token_request list" where
  "refreshToken m result now =
     (case result of
        Resolved data \<Rightarrow>
          (let expiry = now + expires_in data * 1000 in
           if valid_time expiry
           then (Inr (access_token data),
                 m\<lparr>accessToken := Some (access_token data), tokenExpiry := Some expiry\<rparr>,
                 [token_request_of m])
           else (Inl (RangeError ''Invalid time value''), clear_token m, [token_request_of m]))
      | RejectedAxios errorData msg \<Rightarrow>
          (Inl (Error (''OAuth authentication failed: '' @ template (errorMsg errorData msg))),
           clear_token m, [token_request_of m])
      | Rejected e \<Rightarrow> (Inl e, clear_token m, [token_request_of m]))"

text \<open>
  \<open>getAccessToken\<close>, given the clock reading of \<open>isTokenValid\<close> and, for the case that it
  refreshes, the outcome of the request and the clock reading after it.
\<close>

definition getAccessToken ::
  "TailscaleOAuthManager \<Rightarrow> int \<Rightarrow> axios_result \<Rightarrow> int \<Rightarrow>
     (js_error + string) \<times> TailscaleOAuthManager \<times> token_request list" where
  "getAccessToken m now result later =
     (if isTokenValid m now then
        (case accessToken m of
           Some token \<Rightarrow>
             if token = [] then (Inl (Error ''Access token is null''), m, [])
             else (Inr token, m, [])
         | None \<Rightarrow> (Inl (Error ''Access token is null''), m, []))
      else refreshToken m result later)"

definition invalidateToken :: "TailscaleOAuthManager \<Rightarrow> TailscaleOAuthManager" where
  "invalidateToken m = m\<lparr>accessToken := None, tokenExpiry := None\<rparr>"

text \<open>\<open>process.env\<close> maps the names of the variables that are set to their values.\<close>

definition isConfigured :: "(string \<rightharpoonup> string) \<Rightarrow> bool" where
  "isConfigured env =
     (truthy (env ''TAILSCALE_OAUTH_CLIENT_ID'') \<and> truthy (env ''TAILSCALE_OAUTH_CLIENT_SECRET''))"

text \<open>\<open>fromEnvironment\<close> returns \<open>null\<close> (\<open>Inr None\<close>), a manager, or what the constructor throws.\<close>

definition fromEnvironment :: "(string \<rightharpoonup> string) \<Rightarrow> js_error + TailscaleOAuthManager option" where
  "fromEnvironment env =
     (case (env ''TAILSCALE_OAUTH_CLIENT_ID'', env ''TAILSCALE_OAUTH_CLIENT_SECRET'') of
        (Some cid, Some secret) \<Rightarrow>
          if cid = [] \<or> secret = [] then Inr None
          else
            (case constructor \<lparr>clientId = cid, clientSecret = secret,
                               baseUrl = Given (env ''TAILSCALE_API_BASE_URL'')\<rparr> of
               Inl e \<Rightarrow> Inl e
             | Inr m \<Rightarrow> Inr (Some m))
      | _ \<Rightarrow> Inr None)"

text \<open>
  The states a manager can be in: built by the constructor, then changed by calls of its
  methods, with any clock readings and any outcome of the token request.
\<close>

inductive reachable :: "TailscaleOAuthManager \<Rightarrow> bool" where
  constructed: "constructor cfg = Inr m \<Longrightarrow> reachable m"
| after_getAccessToken:
    "reachable m \<Longrightarrow> getAccessToken m now result later = (r, m', reqs) \<Longrightarrow> reachable m'"
| after_refreshToken:
    "reachable m \<Longrightarrow> refreshToken m result now = (r, m', reqs) \<Longrightarrow> reachable m'"
| after_invalidateToken: "reachable m \<Longrightarrow> reachable (invalidateToken m)"


section \<open>The language of a pattern\<close>

inductive_set star_lang :: "string set \<Rightarrow> string set" for A :: "string set" where
  star_empty: "[] \<in> star_lang A"
| star_step: "u \<in> A \<Longrightarrow> v \<in> star_lang A \<Longrightarrow> u @ v \<in> star_lang A"

fun lang :: "regex \<Rightarrow> string set" where
  "lang Nul = {}"
| "lang Eps = {[]}"
| "lang (Cls p) = {w. \<exists>c. w = [c] \<and> p c}"
| "lang (Alt r s) = lang r \<union> lang s"
| "lang (Cat r s) = {w. \<exists>u v. w = u @ v \<and> u \<in> lang r \<and> v \<in> lang s}"
| "lang (Rep r) = star_lang (lang r)"


section \<open>Evaluating the models\<close>

lemmas ipdefs = ipaddr_parse_def is_ipv6_def is_ipv4_def ipv6_group_def ipv4_octet_def
  colon_pieces_def decimal_def digit_value_def digit_def hexdigit_def

lemmas cidrdefs = isValidCIDR_def ipaddr_parseCIDR_def ipdefs

lemmas oauth_defs = getAccessToken_def refreshToken_def isTokenValid_def expiryBuffer_def
  token_request_of_def valid_time_def clear_token_def constructor_def spread_defaults_def
  default_baseUrl_def Let_def

lemmas target_defs = validateTarget_def isValidIPAddress_def DANGEROUS_CHARS_def startsWith_def
  quoted_def looksLikeIPv4_def VALID_HOSTNAME_PATTERN_def hostname_label_def Opt_def Plus_def
  alnum_def alnum_hyphen_def dot_def ipdefs

text \<open>
  The expectations of \<open>src/__test__/utils/validation.test.ts\<close>, with the library calls
  modelled by \<open>ipaddr_parse\<close> and \<open>ipaddr_parseCIDR\<close>.
\<close>

lemma isValidIPAddress_tests:
  "list_all (isValidIPAddress ipaddr_parse)
     [''192.168.1.1'', ''10.0.0.1'', ''172.16.0.1'', ''0.0.0.0'', ''255.255.255.255'',
      ''127.0.0.1'', ''1.1.1.1'', ''2001:db8::1'', ''::1'', ''::'', ''fe80::1'',
      ''2001:0db8:85a3:0000:0000:8a2e:0370:7334'', ''2001:db8::'', ''::ffff:192.168.1.1'']"
  "list_all (\<lambda>s. \<not> isValidIPAddress ipaddr_parse s)
     [''256.0.0.1'', ''192.168.256.1'', ''999.999.999.999'', ''192.168.1.1.1'', ''192.168.1.'',
      ''.192.168.1.1'', ''2001:db8:::1'', ''2001:db8:85a3:0000:0000:8a2e:0370:7334:extra'',
      ''gggg::1'', ''example.com'', ''localhost'', '''', ''not-an-ip'']"
  by (simp_all add: isValidIPAddress_def ipdefs)

lemma isValidCIDR_tests:
  "list_all (isValidCIDR (ipaddr_parseCIDR ipaddr_parse))
     [''10.0.0.0/8'', ''192.168.0.0/16'', ''192.168.1.0/24'', ''192.168.1.1/32'', ''0.0.0.0/0'',
      ''10.0.0.0/0'', ''10.0.0.0/32'', ''2001:db8::/32'', ''::/0'', ''fe80::/10'', ''::1/128'']"
  "list_all (\<lambda>s. \<not> isValidCIDR (ipaddr_parseCIDR ipaddr_parse) s)
     [''256.0.0.0/8'', ''999.999.999.999/32'', ''192.168.300.0/24'', ''10.0.0.0/33'',
      ''10.0.0.0/64'', ''10.0.0.0/99'', ''10.0.0.0.0/8'', ''10.0.0.0/'', ''/8'',
      ''2001:db8::/129'', ''2001:db8::/256'', ''::/999'', ''2001:db8:::1/64'', ''gggg::/64'',
      ''example.com/24'', ''192.168.1.1'', '''', ''not-a-cidr'']"
  by (simp_all add: cidrdefs)

lemma validateTarget_tests:
  "list_all (\<lambda>s. validateTarget ipaddr_parse (JString s) = Inr ())
     [''192.168.1.1'', ''10.0.0.1'', ''2001:db8::1'', ''::1'', ''example.com'', ''my-server'',
      ''server123'']"
  "validateTarget ipaddr_parse (JString ''999.999.999.999'') =
     Inl (Error ''Invalid IPv4 address format'')"
  "validateTarget ipaddr_parse (JString ''host;rm -rf /'') =
     Inl (Error ''Invalid character ';' in target'')"
  "validateTarget ipaddr_parse (JString ''host|cat /etc/passwd'') =
     Inl (Error ''Invalid character '|' in target'')"
  "validateTarget ipaddr_parse (JString ''../etc/passwd'') =
     Inl (Error ''Target contains invalid characters or format'')"
  "validateTarget ipaddr_parse (JString ''/etc/passwd'') =
     Inl (Error ''Target contains invalid characters or format'')"
  "validateTarget ipaddr_parse (JString ''~/.ssh/id_rsa'') =
     Inl (Error ''Target contains invalid characters or format'')"
  by (simp_all add: target_defs)

lemma validateRoutes_tests:
  "validateRoutes (ipaddr_parseCIDR ipaddr_parse)
     (JArray [JString ''10.0.0.0/8'', JString ''2001:db8::/32'']) = Inr ()"
  "validateRoutes (ipaddr_parseCIDR ipaddr_parse) (JArray [JString ''10.0.0.0/33'']) =
     Inl (Error ''Invalid CIDR format: 10.0.0.0/33'')"
  "validateRoutes (ipaddr_parseCIDR ipaddr_parse) (JString ''10.0.0.0/8'') =
     Inl (TypeError ''Routes must be an array'')"
  "validateRoutes (ipaddr_parseCIDR ipaddr_parse) (JArray [JNumber 123]) =
     Inl (TypeError ''Each route must be a string'')"
  by (simp_all add: validateRoutes_def cidrdefs)

text \<open>The expectations of \<open>src/__test__/tailscale/oauth.test.ts\<close> that need no network.\<close>

lemma oauth_tests:
  "constructor \<lparr>clientId = '''', clientSecret = ''test-secret'', baseUrl = Omitted\<rparr> =
     Inl (Error ''OAuth client ID and secret are required for OAuth authentication'')"
  "constructor \<lparr>clientId = ''test-client-id'', clientSecret = '''', baseUrl = Omitted\<rparr> =
     Inl (Error ''OAuth client ID and secret are required for OAuth authentication'')"
  "\<not> isConfigured Map.empty"
  "\<not> isConfigured [''TAILSCALE_OAUTH_CLIENT_ID'' \<mapsto> ''test-client-id'']"
  "\<not> isConfigured [''TAILSCALE_OAUTH_CLIENT_SECRET'' \<mapsto> ''test-client-secret'']"
  "isConfigured [''TAILSCALE_OAUTH_CLIENT_ID'' \<mapsto> ''test-client-id'',
                 ''TAILSCALE_OAUTH_CLIENT_SECRET'' \<mapsto> ''test-client-secret'']"
  "fromEnvironment Map.empty = Inr None"
  "fromEnvironment [''TAILSCALE_OAUTH_CLIENT_ID'' \<mapsto> ''test-client-id''] = Inr None"
  by (simp_all add: constructor_def spread_defaults_def isConfigured_def fromEnvironment_def)


section \<open>The matcher decides the language\<close>

lemma nullable_lang: "nullable r = ([] \<in> lang r)"
  by (induction r) (auto intro: star_lang.star_empty)

lemma star_lang_Cons_D:
  assumes "x \<in> star_lang A" and "x = c # w"
  shows "\<exists>u v. w = u @ v \<and> c # u \<in> A \<and> v \<in> star_lang A"
  using assms
proof (induction arbitrary: w rule: star_lang.induct)
  case star_empty
  then show ?case by simp
next
  case (star_step u v)
  show ?case
  proof (cases u)
    case Nil
    with star_step show ?thesis by simp
  next
    case (Cons a u')
    with star_step.prems have "a = c" and "w = u' @ v" by simp_all
    with Cons star_step.hyps show ?thesis by blast
  qed
qed

lemma star_lang_Cons:
  "(c # w \<in> star_lang A) = (\<exists>u v. w = u @ v \<and> c # u \<in> A \<and> v \<in> star_lang A)"
proof
  assume "c # w \<in> star_lang A"
  then show "\<exists>u v. w = u @ v \<and> c # u \<in> A \<and> v \<in> star_lang A"
    using star_lang_Cons_D by blast
next
  assume "\<exists>u v. w = u @ v \<and> c # u \<in> A \<and> v \<in> star_lang A"
  then obtain u v where "w = u @ v" "c # u \<in> A" "v \<in> star_lang A" by blast
  then show "c # w \<in> star_lang A"
    using star_lang.star_step [of "c # u" A v] by simp
qed

lemma deriv_lang: "lang (deriv c r) = {w. c # w \<in> lang r}"
proof (induction r)
  case (Cat r1 r2)
  then show ?case
    by (auto simp: nullable_lang Cons_eq_append_conv)
next
  case (Rep r)
  then show ?case
    by (auto simp: star_lang_Cons)
qed auto

lemma regex_test_lang: "regex_test r s = (s \<in> lang r)"
  by (induction s arbitrary: r) (simp_all add: nullable_lang deriv_lang)


section \<open>Dangerous characters\<close>

lemma str_includes_single: "str_includes s [c] = (c \<in> set s)"
  by (induction s) (auto simp: startsWith_def)

lemma first_included_Some:
  "first_included s chs = Some ch \<Longrightarrow> ch \<in> set chs \<and> str_includes s ch"
  by (induction chs) (auto split: if_splits)

lemma first_included_None:
  "first_included s chs = None \<Longrightarrow> ch \<in> set chs \<Longrightarrow> \<not> str_includes s ch"
  by (induction chs) (auto split: if_splits)

lemma first_included_hit:
  "ch \<in> set chs \<Longrightarrow> str_includes s ch \<Longrightarrow>
     \<exists>ch'. first_included s chs = Some ch' \<and> ch' \<in> set chs \<and> str_includes s ch'"
  by (cases "first_included s chs") (auto dest: first_included_None first_included_Some)

lemma DANGEROUS_CHARS_single: "ch \<in> set DANGEROUS_CHARS \<Longrightarrow> \<exists>d. ch = [d]"
  by (auto simp: DANGEROUS_CHARS_def)

lemma DANGEROUS_CHARS_BASIC_single: "ch \<in> set DANGEROUS_CHARS_BASIC \<Longrightarrow> \<exists>d. ch = [d]"
  by (auto simp: DANGEROUS_CHARS_BASIC_def)

text \<open>
  Claim C4, as amended. A string that contains a character of \<open>DANGEROUS_CHARS\<close> is
  rejected by \<open>validateTarget\<close>, and the message names a character of that list that
  occurs in the string. \<open>validateStringInput\<close> checks the shorter list
  \<open>DANGEROUS_CHARS_BASIC\<close>: it rejects a string that contains one of its characters,
  naming one that occurs, and accepts a string of at most 1000 characters that contains
  none of them, whatever else it contains.
\<close>

theorem dangerous_characters_rejected:
  "(c \<in> set s \<and> [c] \<in> set DANGEROUS_CHARS \<longrightarrow>
      (\<exists>d. d \<in> set s \<and> [d] \<in> set DANGEROUS_CHARS \<and>
           validateTarget parse (JString s) =
             Inl (Error (''Invalid character '' @ quoted [d] @ '' in target'')))) \<and>
   (c \<in> set s \<and> [c] \<in> set DANGEROUS_CHARS_BASIC \<longrightarrow>
      (\<exists>d. d \<in> set s \<and> [d] \<in> set DANGEROUS_CHARS_BASIC \<and>
           validateStringInput (JString s) fieldName =
             Inl (Error (''Invalid character '' @ quoted [d] @ '' in '' @ fieldName)))) \<and>
   (first_included s DANGEROUS_CHARS_BASIC = None \<and> length s \<le> 1000 \<longrightarrow>
      validateStringInput (JString s) fieldName = Inr ())"
proof (intro conjI impI)
  assume a: "c \<in> set s \<and> [c] \<in> set DANGEROUS_CHARS"
  then have "str_includes s [c]" by (simp add: str_includes_single)
  with a obtain ch where ch: "first_included s DANGEROUS_CHARS = Some ch"
      "ch \<in> set DANGEROUS_CHARS" "str_includes s ch"
    using first_included_hit by blast
  then obtain d where d: "ch = [d]" using DANGEROUS_CHARS_single by blast
  from a have "s \<noteq> []" by auto
  with ch d show "\<exists>d. d \<in> set s \<and> [d] \<in> set DANGEROUS_CHARS \<and>
           validateTarget parse (JString s) =
             Inl (Error (''Invalid character '' @ quoted [d] @ '' in target''))"
    by (auto simp: validateTarget_def str_includes_single)
next
  assume a: "c \<in> set s \<and> [c] \<in> set DANGEROUS_CHARS_BASIC"
  then have "str_includes s [c]" by (simp add: str_includes_single)
  with a obtain ch where ch: "first_included s DANGEROUS_CHARS_BASIC = Some ch"
      "ch \<in> set DANGEROUS_CHARS_BASIC" "str_includes s ch"
    using first_included_hit by blast
  then obtain d where d: "ch = [d]" using DANGEROUS_CHARS_BASIC_single by blast
  with ch show "\<exists>d. d \<in> set s \<and> [d] \<in> set DANGEROUS_CHARS_BASIC \<and>
           validateStringInput (JString s) fieldName =
             Inl (Error (''Invalid character '' @ quoted [d] @ '' in '' @ fieldName))"
    by (auto simp: validateStringInput_def str_includes_single)
next
  assume "first_included s DANGEROUS_CHARS_BASIC = None \<and> length s \<le> 1000"
  then show "validateStringInput (JString s) fieldName = Inr ()"
    by (simp add: validateStringInput_def)
qed

text \<open>
  Claim C4 as stated fails for \<open>validateStringInput\<close>: \<open>[\<close> is a dangerous character,
  and the string \<open>a[b\<close> is accepted.
\<close>

theorem dangerous_characters_counterexample:
  "CHR ''['' \<in> set ''a[b'' \<and> [CHR ''[''] \<in> set DANGEROUS_CHARS \<and>
   validateStringInput (JString ''a[b'') ''name'' = Inr ()"
  by (simp add: validateStringInput_def DANGEROUS_CHARS_def DANGEROUS_CHARS_BASIC_def
      startsWith_def)

theorem dangerous_characters_rejected_witness:
  "CHR '';'' \<in> set ''host;rm -rf /'' \<and> [CHR '';''] \<in> set DANGEROUS_CHARS \<and>
   [CHR '';''] \<in> set DANGEROUS_CHARS_BASIC \<and>
   (\<exists>d. d \<in> set ''host;rm -rf /'' \<and> [d] \<in> set DANGEROUS_CHARS \<and>
      validateTarget ipaddr_parse (JString ''host;rm -rf /'') =
        Inl (Error (''Invalid character '' @ quoted [d] @ '' in target''))) \<and>
   (\<exists>d. d \<in> set ''host;rm -rf /'' \<and> [d] \<in> set DANGEROUS_CHARS_BASIC \<and>
      validateStringInput (JString ''host;rm -rf /'') ''name'' =
        Inl (Error (''Invalid character '' @ quoted [d] @ '' in name''))) \<and>
   first_included ''my-host'' DANGEROUS_CHARS_BASIC = None \<and>
   validateStringInput (JString ''my-host'') ''name'' = Inr ()"
proof -
  have a: "CHR '';'' \<in> set ''host;rm -rf /'' \<and> [CHR '';''] \<in> set DANGEROUS_CHARS"
    by (simp add: DANGEROUS_CHARS_def)
  have b: "CHR '';'' \<in> set ''host;rm -rf /'' \<and> [CHR '';''] \<in> set DANGEROUS_CHARS_BASIC"
    by (simp add: DANGEROUS_CHARS_BASIC_def)
  have c: "first_included ''my-host'' DANGEROUS_CHARS_BASIC = None \<and>
      length ''my-host'' \<le> 1000"
    by (simp add: DANGEROUS_CHARS_BASIC_def startsWith_def)
  from a b
    dangerous_characters_rejected [of "CHR '';''" "''host;rm -rf /''" ipaddr_parse "''name''"]
  have 1: "(\<exists>d. d \<in> set ''host;rm -rf /'' \<and> [d] \<in> set DANGEROUS_CHARS \<and>
      validateTarget ipaddr_parse (JString ''host;rm -rf /'') =
        Inl (Error (''Invalid character '' @ quoted [d] @ '' in target''))) \<and>
   (\<exists>d. d \<in> set ''host;rm -rf /'' \<and> [d] \<in> set DANGEROUS_CHARS_BASIC \<and>
      validateStringInput (JString ''host;rm -rf /'') ''name'' =
        Inl (Error (''Invalid character '' @ quoted [d] @ '' in name'')))"
    by simp
  from c dangerous_characters_rejected [of "CHR '';''" "''my-host''" ipaddr_parse "''name''"]
  have 2: "validateStringInput (JString ''my-host'') ''name'' = Inr ()" by blast
  from a b c 1 2 show ?thesis by blast
qed


section \<open>The empty string\<close>

text \<open>
  Claim C10. For every field name \<open>validateStringInput\<close> returns normally on the empty
  string, which contains no character of the basic list and is not longer than 1000,
  and \<open>validateTarget\<close> throws on it, whatever the address parser does.
\<close>

theorem empty_string_input_accepted_target_rejected:
  "first_included '''' DANGEROUS_CHARS_BASIC = None \<and> length '''' \<le> (1000::nat) \<and>
   validateStringInput (JString '''') fieldName = Inr () \<and>
   validateTarget parse (JString '''') = Inl (Error ''Invalid target specified'')"
  by (simp add: validateStringInput_def validateTarget_def DANGEROUS_CHARS_BASIC_def)

theorem empty_string_input_accepted_target_rejected_witness:
  "validateStringInput (JString '''') ''hostname'' = Inr () \<and>
   validateTarget ipaddr_parse (JString '''') = Inl (Error ''Invalid target specified'')"
  using empty_string_input_accepted_target_rejected [of "''hostname''" ipaddr_parse]
  by simp


section \<open>Targets that look like addresses\<close>

lemma Plus_Cls_single: "p c \<Longrightarrow> [c] \<in> lang (Plus (Cls p))"
  by (auto simp: Plus_def intro: star_lang.star_empty)

lemma Plus_Cls_Cons: "p c \<Longrightarrow> w \<in> lang (Plus (Cls p)) \<Longrightarrow> c # w \<in> lang (Plus (Cls p))"
proof -
  assume c: "p c" and "w \<in> lang (Plus (Cls p))"
  then obtain u v where w: "w = u @ v" "u \<in> lang (Cls p)" "v \<in> star_lang (lang (Cls p))"
    by (auto simp: Plus_def)
  then have "u @ v \<in> star_lang (lang (Cls p))" by (rule_tac star_lang.star_step)
  moreover from c have "[c] \<in> lang (Cls p)" by simp
  ultimately have "[c] @ (u @ v) \<in> lang (Plus (Cls p))"
    unfolding Plus_def lang.simps by blast
  with w show ?thesis by simp
qed

lemma str_includes_dotdot:
  "str_includes (a # b # s) ''..'' = (a = CHR ''.'' \<and> b = CHR ''.'' \<or> str_includes (b # s) ''..'')"
  by (simp add: startsWith_def)

lemma digits_dots_shape:
  assumes "list_all (\<lambda>c. digit c \<or> c = CHR ''.'') s"
    and "\<not> str_includes s ''..''"
    and "s \<noteq> [] \<Longrightarrow> last s \<noteq> CHR ''.''"
  shows "(s = [] \<or> hd s = CHR ''.'' \<longrightarrow> s \<in> lang dot_groups) \<and>
         (s \<noteq> [] \<and> hd s \<noteq> CHR ''.'' \<longrightarrow> s \<in> lang looksLikeIPv4)"
  using assms
proof (induction s)
  case Nil
  then show ?case by (simp add: dot_groups_def star_lang.star_empty)
next
  case (Cons c s)
  have tl_ok: "list_all (\<lambda>c. digit c \<or> c = CHR ''.'') s" "\<not> str_includes s ''..''"
    using Cons.prems by (auto simp: startsWith_def)
  have last_ok: "s \<noteq> [] \<Longrightarrow> last s \<noteq> CHR ''.''"
    using Cons.prems(3) by auto
  note IH = Cons.IH [OF tl_ok last_ok]
  show ?case
  proof (cases "c = CHR ''.''")
    case True
    with Cons.prems(3) have ne: "s \<noteq> []" by auto
    then obtain b s' where s: "s = b # s'" by (cases s) auto
    with True Cons.prems(2) have "b \<noteq> CHR ''.''" by (simp add: startsWith_def)
    with IH s have "s \<in> lang looksLikeIPv4" by simp
    then obtain u v where uv: "s = u @ v" "u \<in> lang (Plus (Cls digit))" "v \<in> lang dot_groups"
      by (auto simp: looksLikeIPv4_def dot_groups_def)
    have "[c] @ u \<in> lang (Cat (Cls dot) (Plus (Cls digit)))"
      unfolding lang.simps using True uv(2) by (auto simp: dot_def)
    from this uv(3) have "([c] @ u) @ v \<in> lang dot_groups"
      unfolding dot_groups_def lang.simps by (rule star_lang.star_step)
    with uv(1) True show ?thesis by simp
  next
    case False
    with Cons.prems(1) have d: "digit c" by simp
    have "c # s \<in> lang looksLikeIPv4"
    proof (cases "s = [] \<or> hd s = CHR ''.''")
      case True
      with IH have "s \<in> lang dot_groups" by simp
      moreover have "[c] \<in> lang (Plus (Cls digit))" using d by (rule Plus_Cls_single)
      ultimately have "[c] @ s \<in> lang looksLikeIPv4"
        unfolding looksLikeIPv4_def dot_groups_def lang.simps by blast
      then show ?thesis by simp
    next
      case False
      with IH have "s \<in> lang looksLikeIPv4" by simp
      then obtain u v where uv: "s = u @ v" "u \<in> lang (Plus (Cls digit))" "v \<in> lang dot_groups"
        by (auto simp: looksLikeIPv4_def dot_groups_def)
      from d uv(2) have "c # u \<in> lang (Plus (Cls digit))" by (rule Plus_Cls_Cons)
      with uv(3) have "(c # u) @ v \<in> lang looksLikeIPv4"
        unfolding looksLikeIPv4_def dot_groups_def lang.simps by blast
      with uv(1) show ?thesis by simp
    qed
    with False show ?thesis by simp
  qed
qed

lemma star_lang_last:
  assumes "v \<in> star_lang A" and "\<And>u. u \<in> A \<Longrightarrow> u \<noteq> [] \<and> P (last u)"
  shows "v = [] \<or> P (last v)"
  using assms(1)
proof (induction rule: star_lang.induct)
  case star_empty
  then show ?case by simp
next
  case (star_step u v)
  with assms(2) [of u] show ?case by (cases "v = []") auto
qed

lemma hostname_label_ends:
  assumes "w \<in> lang hostname_label"
  shows "w \<noteq> [] \<and> alnum (hd w) \<and> alnum (last w)"
  using assms by (auto simp: hostname_label_def Opt_def)

lemma hostname_ends:
  assumes "s \<in> lang VALID_HOSTNAME_PATTERN"
  shows "s \<noteq> [] \<and> alnum (hd s) \<and> alnum (last s)"
proof -
  from assms obtain u v where uv: "s = u @ v" "u \<in> lang hostname_label"
      "v \<in> star_lang (lang (Cat (Cls dot) hostname_label))"
    by (auto simp: VALID_HOSTNAME_PATTERN_def)
  have "\<And>x. x \<in> lang (Cat (Cls dot) hostname_label) \<Longrightarrow> x \<noteq> [] \<and> alnum (last x)"
    using hostname_label_ends by auto
  with uv(3) have "v = [] \<or> alnum (last v)" by (rule star_lang_last)
  with uv(1) hostname_label_ends [OF uv(2)] show ?thesis by (cases "v = []") auto
qed

lemma not_alnum_dot: "\<not> alnum (CHR ''.'')"
  by (simp add: alnum_def)

lemma digits_dots_not_hostname:
  assumes dd: "list_all (\<lambda>c. digit c \<or> c = CHR ''.'') s"
    and nodd: "\<not> str_includes s ''..''"
    and nolike: "\<not> regex_test looksLikeIPv4 s"
  shows "\<not> regex_test VALID_HOSTNAME_PATTERN s"
proof
  assume "regex_test VALID_HOSTNAME_PATTERN s"
  then have ends: "s \<noteq> []" "alnum (hd s)" "alnum (last s)"
    using hostname_ends by (simp_all add: regex_test_lang)
  then have "hd s \<noteq> CHR ''.''" "last s \<noteq> CHR ''.''"
    using not_alnum_dot by auto
  with digits_dots_shape [OF dd nodd] ends(1) have "s \<in> lang looksLikeIPv4" by simp
  with nolike show False by (simp add: regex_test_lang)
qed

text \<open>
  Claim C5. A target that consists of digits and dots only, or contains a colon, and that
  the address parser does not accept, is rejected by \<open>validateTarget\<close>: it never
  reaches the accepting branch of the host name pattern. This holds for every address
  parser.
\<close>

theorem malformed_ip_never_a_hostname:
  assumes "list_all (\<lambda>c. digit c \<or> c = CHR ''.'') s \<or> CHR '':'' \<in> set s"
    and "\<not> isValidIPAddress parse s"
  shows "\<exists>e. validateTarget parse (JString s) = Inl e"
proof (cases "CHR '':'' \<in> set s")
  case True
  then have "str_includes s '':''" by (simp add: str_includes_single)
  with assms(2) show ?thesis
    by (simp add: validateTarget_def split: option.split)
next
  case False
  with assms(1) have dd: "list_all (\<lambda>c. digit c \<or> c = CHR ''.'') s" by simp
  have "str_includes s ''..'' \<or> regex_test looksLikeIPv4 s \<or> \<not> regex_test VALID_HOSTNAME_PATTERN s"
    using digits_dots_not_hostname [OF dd] by blast
  with assms(2) show ?thesis
    by (auto simp: validateTarget_def split: option.split)
qed

theorem malformed_ip_never_a_hostname_witness:
  "list_all (\<lambda>c. digit c \<or> c = CHR ''.'') ''999.999.999.999'' \<and>
   \<not> isValidIPAddress ipaddr_parse ''999.999.999.999'' \<and>
   (\<exists>e. validateTarget ipaddr_parse (JString ''999.999.999.999'') = Inl e) \<and>
   CHR '':'' \<in> set ''2001:db8:::1'' \<and>
   \<not> isValidIPAddress ipaddr_parse ''2001:db8:::1'' \<and>
   (\<exists>e. validateTarget ipaddr_parse (JString ''2001:db8:::1'') = Inl e)"
proof -
  have a: "list_all (\<lambda>c. digit c \<or> c = CHR ''.'') ''999.999.999.999''"
    by (simp add: digit_def)
  have b: "\<not> isValidIPAddress ipaddr_parse ''999.999.999.999''"
    by (simp add: isValidIPAddress_def ipdefs)
  have c: "CHR '':'' \<in> set ''2001:db8:::1''" by simp
  have d: "\<not> isValidIPAddress ipaddr_parse ''2001:db8:::1''"
    by (simp add: isValidIPAddress_def ipdefs)
  from a b have 1: "\<exists>e. validateTarget ipaddr_parse (JString ''999.999.999.999'') = Inl e"
    using malformed_ip_never_a_hostname [of "''999.999.999.999''" ipaddr_parse] by blast
  from c d have 2: "\<exists>e. validateTarget ipaddr_parse (JString ''2001:db8:::1'') = Inl e"
    using malformed_ip_never_a_hostname [of "''2001:db8:::1''" ipaddr_parse] by blast
  from a b c d 1 2 show ?thesis by blast
qed


section \<open>CIDR notation\<close>

lemma split_last_append:
  "c \<notin> set b \<Longrightarrow> split_last c (a @ c # b) = Some (a, b)"
proof (induction a)
  case Nil
  have "c \<notin> set b \<Longrightarrow> split_last c b = None" for b
    by (induction b) (auto split: option.splits)
  with Nil show ?case by simp
next
  case (Cons x a)
  then show ?case by simp
qed

lemma split_last_Some: "split_last c s = Some (a, b) \<Longrightarrow> s = a @ c # b"
  by (induction s arbitrary: a) (auto split: option.splits if_splits)

lemma digits_no_slash: "list_all digit p \<Longrightarrow> CHR ''/'' \<notin> set p"
  by (auto simp: list_all_iff digit_def)

lemma isValidCIDR_join:
  assumes "prefix \<noteq> []" and "list_all digit prefix"
  shows "isValidCIDR (ipaddr_parseCIDR parse) (ip @ CHR ''/'' # prefix) =
           (case parse ip of None \<Rightarrow> False | Some kind \<Rightarrow> decimal prefix \<le> max_prefix kind)"
  using assms split_last_append [OF digits_no_slash [OF assms(2)], of ip]
  by (simp add: isValidCIDR_def ipaddr_parseCIDR_def split: option.split)

lemma isValidCIDR_shape:
  assumes "isValidCIDR (ipaddr_parseCIDR parse) s"
  shows "\<exists>ip prefix. s = ip @ ''/'' @ prefix \<and> prefix \<noteq> [] \<and> list_all digit prefix \<and> parse ip \<noteq> None"
proof -
  from assms obtain ip prefix where sp: "split_last (CHR ''/'') s = Some (ip, prefix)"
    by (auto simp: isValidCIDR_def ipaddr_parseCIDR_def split: option.splits)
  with assms have "prefix \<noteq> []" "list_all digit prefix" "parse ip \<noteq> None"
    by (auto simp: isValidCIDR_def ipaddr_parseCIDR_def split: option.splits if_splits)
  moreover from sp have "s = ip @ ''/'' @ prefix" by (simp add: split_last_Some)
  ultimately show ?thesis by blast
qed

text \<open>
  Claim C6. For an address \<open>ip\<close> and a decimal numeral \<open>prefix\<close>, \<open>isValidCIDR\<close> on
  \<open>ip/prefix\<close> is true exactly when the prefix is at most 32 if \<open>ip\<close> is an IPv4
  literal, exactly when it is at most 128 if \<open>ip\<close> is an IPv6 literal, and false if
  \<open>ip\<close> is not an address; and it is false on every string that is not an address, a
  slash and a decimal numeral. The library call is the model \<open>ipaddr_parseCIDR\<close>, over
  any classification of addresses.
\<close>

theorem cidr_prefix_bounds:
  "(parse ip = Some IPv4 \<and> prefix \<noteq> [] \<and> list_all digit prefix \<longrightarrow>
      isValidCIDR (ipaddr_parseCIDR parse) (ip @ ''/'' @ prefix) = (decimal prefix \<le> 32)) \<and>
   (parse ip = Some IPv6 \<and> prefix \<noteq> [] \<and> list_all digit prefix \<longrightarrow>
      isValidCIDR (ipaddr_parseCIDR parse) (ip @ ''/'' @ prefix) = (decimal prefix \<le> 128)) \<and>
   (parse ip = None \<and> prefix \<noteq> [] \<and> list_all digit prefix \<longrightarrow>
      \<not> isValidCIDR (ipaddr_parseCIDR parse) (ip @ ''/'' @ prefix)) \<and>
   (\<not> (\<exists>a p. s = a @ ''/'' @ p \<and> p \<noteq> [] \<and> list_all digit p \<and> parse a \<noteq> None) \<longrightarrow>
      \<not> isValidCIDR (ipaddr_parseCIDR parse) s)"
proof -
  have "\<not> (\<exists>a p. s = a @ ''/'' @ p \<and> p \<noteq> [] \<and> list_all digit p \<and> parse a \<noteq> None) \<longrightarrow>
      \<not> isValidCIDR (ipaddr_parseCIDR parse) s"
    using isValidCIDR_shape [of parse s] by blast
  then show ?thesis by (simp add: isValidCIDR_join)
qed

theorem cidr_prefix_bounds_witness:
  "ipaddr_parse ''10.0.0.0'' = Some IPv4 \<and> ipaddr_parse ''2001:db8::'' = Some IPv6 \<and>
   ipaddr_parse ''999.999.999.999'' = None \<and>
   isValidCIDR (ipaddr_parseCIDR ipaddr_parse) ''10.0.0.0/32'' \<and>
   \<not> isValidCIDR (ipaddr_parseCIDR ipaddr_parse) ''10.0.0.0/33'' \<and>
   isValidCIDR (ipaddr_parseCIDR ipaddr_parse) ''2001:db8::/128'' \<and>
   \<not> isValidCIDR (ipaddr_parseCIDR ipaddr_parse) ''2001:db8::/129'' \<and>
   \<not> isValidCIDR (ipaddr_parseCIDR ipaddr_parse) ''999.999.999.999/32'' \<and>
   \<not> isValidCIDR (ipaddr_parseCIDR ipaddr_parse) ''10.0.0.0''"
proof -
  have v4: "ipaddr_parse ''10.0.0.0'' = Some IPv4" by (simp add: ipdefs)
  have v6: "ipaddr_parse ''2001:db8::'' = Some IPv6" by (simp add: ipdefs)
  have bad: "ipaddr_parse ''999.999.999.999'' = None" by (simp add: ipdefs)
  have d: "list_all digit ''32''" "list_all digit ''33''" "list_all digit ''128''" "list_all digit ''129''"
    by (simp_all add: digit_def)
  have n: "decimal ''32'' = 32" "decimal ''33'' = 33" "decimal ''128'' = 128" "decimal ''129'' = 129"
    by (simp_all add: decimal_def digit_value_def)
  have noform: "\<not> (\<exists>a p. ''10.0.0.0'' = a @ ''/'' @ p \<and> p \<noteq> [] \<and> list_all digit p \<and> ipaddr_parse a \<noteq> None)"
  proof
    assume "\<exists>a p. ''10.0.0.0'' = a @ ''/'' @ p \<and> p \<noteq> [] \<and> list_all digit p \<and> ipaddr_parse a \<noteq> None"
    then obtain a p where "''10.0.0.0'' = a @ ''/'' @ p" by blast
    then have "CHR ''/'' \<in> set ''10.0.0.0''" by (metis append_Cons in_set_conv_decomp)
    then show False by simp
  qed
  show ?thesis
    using cidr_prefix_bounds [of ipaddr_parse "''10.0.0.0''" "''32''" "''10.0.0.0''"]
      cidr_prefix_bounds [of ipaddr_parse "''10.0.0.0''" "''33''" "''10.0.0.0''"]
      cidr_prefix_bounds [of ipaddr_parse "''2001:db8::''" "''128''" "''10.0.0.0''"]
      cidr_prefix_bounds [of ipaddr_parse "''2001:db8::''" "''129''" "''10.0.0.0''"]
      cidr_prefix_bounds [of ipaddr_parse "''999.999.999.999''" "''32''" "''10.0.0.0''"]
      v4 v6 bad d n noform
    by simp
qed


section \<open>Routes\<close>

lemma loop_valid_prefix:
  "list_all (valid_route P) pre \<Longrightarrow>
     validateRoutes_loop P (pre @ rest) = validateRoutes_loop P rest"
proof (induction pre)
  case Nil
  then show ?case by simp
next
  case (Cons x pre)
  then show ?case by (cases x) (simp_all add: valid_route_def)
qed

lemma loop_non_string:
  "\<not> is_string x \<Longrightarrow> validateRoutes_loop P (x # rest) = Inl (TypeError ''Each route must be a string'')"
  by (cases x) simp_all

lemma loop_strings:
  "validateRoutes_loop P (map JString rs) = Inr () \<longleftrightarrow> list_all (isValidCIDR P) rs"
  by (induction rs) auto

lemma loop_strings_error:
  "validateRoutes_loop P (map JString rs) = Inl e \<Longrightarrow>
     \<exists>r \<in> set rs. \<not> isValidCIDR P r \<and> e = Error (''Invalid CIDR format: '' @ r)"
  by (induction rs) (auto split: if_splits)

text \<open>
  Claim C7, as amended. \<open>validateRoutes\<close> throws "Routes must be an array" on every
  value that is not an array. On an array it checks the elements in order and throws at
  the first element that is not a string ("Each route must be a string") or is a string
  that fails \<open>isValidCIDR\<close> ("Invalid CIDR format: " and the route); the elements after
  it are not looked at. So an array with an element that is not a string always fails,
  and with the "must be a string" message when every element before that one is a valid
  CIDR string. An array of strings is accepted exactly when every element passes
  \<open>isValidCIDR\<close>, and otherwise the message names an element that fails it.
\<close>

theorem validateRoutes_first_failure:
  "(\<not> is_array v \<longrightarrow> validateRoutes P v = Inl (TypeError ''Routes must be an array'')) \<and>
   (list_all (valid_route P) pre \<and> \<not> is_string x \<longrightarrow>
      validateRoutes P (JArray (pre @ x # rest)) = Inl (TypeError ''Each route must be a string'')) \<and>
   (list_all (valid_route P) pre \<and> \<not> isValidCIDR P r \<longrightarrow>
      validateRoutes P (JArray (pre @ JString r # rest)) = Inl (Error (''Invalid CIDR format: '' @ r))) \<and>
   (\<not> list_all is_string xs \<longrightarrow> (\<exists>e. validateRoutes P (JArray xs) = Inl e)) \<and>
   ((validateRoutes P (JArray (map JString rs)) = Inr ()) = list_all (isValidCIDR P) rs) \<and>
   (\<not> list_all (isValidCIDR P) rs \<longrightarrow>
      (\<exists>r. r \<in> set rs \<and> \<not> isValidCIDR P r \<and>
           validateRoutes P (JArray (map JString rs)) = Inl (Error (''Invalid CIDR format: '' @ r))))"
proof (intro conjI impI)
  assume "\<not> is_array v"
  then show "validateRoutes P v = Inl (TypeError ''Routes must be an array'')"
    by (cases v) (simp_all add: validateRoutes_def)
next
  assume "list_all (valid_route P) pre \<and> \<not> is_string x"
  then show "validateRoutes P (JArray (pre @ x # rest)) = Inl (TypeError ''Each route must be a string'')"
    by (simp add: validateRoutes_def loop_valid_prefix loop_non_string)
next
  assume "list_all (valid_route P) pre \<and> \<not> isValidCIDR P r"
  then show "validateRoutes P (JArray (pre @ JString r # rest)) = Inl (Error (''Invalid CIDR format: '' @ r))"
    by (simp add: validateRoutes_def loop_valid_prefix)
next
  assume "\<not> list_all is_string xs"
  then have "\<exists>e. validateRoutes_loop P xs = Inl e"
  proof (induction xs)
    case Nil
    then show ?case by simp
  next
    case (Cons x xs)
    then show ?case by (cases x) auto
  qed
  then show "\<exists>e. validateRoutes P (JArray xs) = Inl e"
    by (simp add: validateRoutes_def)
next
  show "(validateRoutes P (JArray (map JString rs)) = Inr ()) = list_all (isValidCIDR P) rs"
    by (simp add: validateRoutes_def loop_strings)
next
  assume bad: "\<not> list_all (isValidCIDR P) rs"
  then have "validateRoutes_loop P (map JString rs) \<noteq> Inr ()"
    by (simp add: loop_strings)
  then obtain e where "validateRoutes_loop P (map JString rs) = Inl e"
    by (cases "validateRoutes_loop P (map JString rs)") auto
  with loop_strings_error [of P rs e]
  show "\<exists>r. r \<in> set rs \<and> \<not> isValidCIDR P r \<and>
           validateRoutes P (JArray (map JString rs)) = Inl (Error (''Invalid CIDR format: '' @ r))"
    by (auto simp: validateRoutes_def)
qed

text \<open>
  Claim C7 as stated fails: an array that holds a number after an invalid CIDR string
  is rejected with the CIDR message, not with "must be a string".
\<close>

theorem validateRoutes_counterexample:
  "\<not> is_string (JNumber 123) \<and>
   validateRoutes (ipaddr_parseCIDR ipaddr_parse) (JArray [JString ''999.999.999.999/32'', JNumber 123]) =
     Inl (Error ''Invalid CIDR format: 999.999.999.999/32'')"
  by (simp add: validateRoutes_def cidrdefs)

theorem validateRoutes_first_failure_witness:
  "\<not> is_array (JString ''10.0.0.0/8'') \<and>
   validateRoutes (ipaddr_parseCIDR ipaddr_parse) (JString ''10.0.0.0/8'') = Inl (TypeError ''Routes must be an array'') \<and>
   list_all (valid_route (ipaddr_parseCIDR ipaddr_parse)) [JString ''10.0.0.0/8''] \<and>
   \<not> is_string (JNumber 123) \<and>
   validateRoutes (ipaddr_parseCIDR ipaddr_parse) (JArray [JString ''10.0.0.0/8'', JNumber 123, JString ''x''])
      = Inl (TypeError ''Each route must be a string'') \<and>
   \<not> isValidCIDR (ipaddr_parseCIDR ipaddr_parse) ''10.0.0.0/33'' \<and>
   validateRoutes (ipaddr_parseCIDR ipaddr_parse) (JArray [JString ''10.0.0.0/8'', JString ''10.0.0.0/33'', JNumber 123])
      = Inl (Error ''Invalid CIDR format: 10.0.0.0/33'') \<and>
   \<not> list_all is_string [JNumber 123] \<and>
   (\<exists>e. validateRoutes (ipaddr_parseCIDR ipaddr_parse) (JArray [JNumber 123]) = Inl e) \<and>
   list_all (isValidCIDR (ipaddr_parseCIDR ipaddr_parse)) [''10.0.0.0/8'', ''2001:db8::/32''] \<and>
   validateRoutes (ipaddr_parseCIDR ipaddr_parse) (JArray (map JString [''10.0.0.0/8'', ''2001:db8::/32''])) = Inr () \<and>
   \<not> list_all (isValidCIDR (ipaddr_parseCIDR ipaddr_parse)) [''999.999.999.999/32''] \<and>
   (\<exists>r. r \<in> set [''999.999.999.999/32''] \<and>
      validateRoutes (ipaddr_parseCIDR ipaddr_parse) (JArray (map JString [''999.999.999.999/32''])) =
        Inl (Error (''Invalid CIDR format: '' @ r)))"
proof -
  let ?P = "ipaddr_parseCIDR ipaddr_parse"
  have a: "\<not> is_array (JString ''10.0.0.0/8'')" by simp
  have b: "list_all (valid_route ?P) [JString ''10.0.0.0/8''] \<and> \<not> is_string (JNumber 123)"
    by (simp add: valid_route_def cidrdefs)
  have c: "list_all (valid_route ?P) [JString ''10.0.0.0/8''] \<and> \<not> isValidCIDR ?P ''10.0.0.0/33''"
    by (simp add: valid_route_def cidrdefs)
  have d: "\<not> list_all is_string [JNumber 123]" by simp
  have e: "list_all (isValidCIDR ?P) [''10.0.0.0/8'', ''2001:db8::/32'']"
    by (simp add: cidrdefs)
  have f: "\<not> list_all (isValidCIDR ?P) [''999.999.999.999/32'']"
    by (simp add: cidrdefs)
  note t1 = validateRoutes_first_failure [of "JString ''10.0.0.0/8''" ?P "[JString ''10.0.0.0/8'']"
      "JNumber 123" "[JString ''x'']" "''10.0.0.0/33''" "[JNumber 123]" "[''10.0.0.0/8'', ''2001:db8::/32'']"]
  note t2 = validateRoutes_first_failure [of "JString ''10.0.0.0/8''" ?P "[JString ''10.0.0.0/8'']"
      "JNumber 123" "[JNumber 123]" "''10.0.0.0/33''" "[JNumber 123]" "[''999.999.999.999/32'']"]
  from t1 a b d e have g1:
    "validateRoutes ?P (JString ''10.0.0.0/8'') = Inl (TypeError ''Routes must be an array'')"
    "validateRoutes ?P (JArray [JString ''10.0.0.0/8'', JNumber 123, JString ''x'']) = Inl (TypeError ''Each route must be a string'')"
    "\<exists>e. validateRoutes ?P (JArray [JNumber 123]) = Inl e"
    "validateRoutes ?P (JArray (map JString [''10.0.0.0/8'', ''2001:db8::/32''])) = Inr ()"
    by simp_all
  from t2 c f have g2:
    "validateRoutes ?P (JArray [JString ''10.0.0.0/8'', JString ''10.0.0.0/33'', JNumber 123]) = Inl (Error ''Invalid CIDR format: 10.0.0.0/33'')"
    "\<exists>r. r \<in> set [''999.999.999.999/32''] \<and>
      validateRoutes ?P (JArray (map JString [''999.999.999.999/32''])) = Inl (Error (''Invalid CIDR format: '' @ r))"
    by simp_all
  from a b c d e f g1 g2 show ?thesis by blast
qed


section \<open>Serving the cached token\<close>

lemma isTokenValid_iff:
  "isTokenValid m now =
     (\<exists>token expiry. accessToken m = Some token \<and> token \<noteq> [] \<and>
        tokenExpiry m = Some expiry \<and> now + 60 * 1000 < expiry)"
  by (cases "accessToken m"; cases "tokenExpiry m") (auto simp: isTokenValid_def expiryBuffer_def)

lemma refreshToken_requests: "snd (snd (refreshToken m result later)) = [token_request_of m]"
  by (simp add: refreshToken_def Let_def split: axios_result.split)

text \<open>
  Claim C1, as amended. When the manager holds a non-empty token whose expiry is more than
  60 seconds away, \<open>getAccessToken\<close> returns that token, leaves the manager as it is
  and sends no request. In every other state (no token, an empty token, no expiry, or at
  most 60 seconds left) it does what \<open>refreshToken\<close> does, and sends the token
  request.
\<close>

theorem getAccessToken_cached_or_refresh:
  "(accessToken m = Some token \<and> token \<noteq> [] \<and> tokenExpiry m = Some expiry \<and>
      now + 60 * 1000 < expiry \<longrightarrow>
      getAccessToken m now result later = (Inr token, m, [])) \<and>
   (\<not> (\<exists>token expiry. accessToken m = Some token \<and> token \<noteq> [] \<and>
          tokenExpiry m = Some expiry \<and> now + 60 * 1000 < expiry) \<longrightarrow>
      getAccessToken m now result later = refreshToken m result later \<and>
      snd (snd (getAccessToken m now result later)) = [token_request_of m])"
proof (intro conjI impI)
  assume a: "accessToken m = Some token \<and> token \<noteq> [] \<and> tokenExpiry m = Some expiry \<and>
      now + 60 * 1000 < expiry"
  then have "isTokenValid m now" unfolding isTokenValid_iff by blast
  with a show "getAccessToken m now result later = (Inr token, m, [])"
    by (simp add: getAccessToken_def)
next
  assume "\<not> (\<exists>token expiry. accessToken m = Some token \<and> token \<noteq> [] \<and>
          tokenExpiry m = Some expiry \<and> now + 60 * 1000 < expiry)"
  then have "\<not> isTokenValid m now" unfolding isTokenValid_iff by blast
  then show g: "getAccessToken m now result later = refreshToken m result later"
    by (simp add: getAccessToken_def)
  show "snd (snd (getAccessToken m now result later)) = [token_request_of m]"
    unfolding g by (rule refreshToken_requests)
qed

lemma empty_token_reachable:
  "reachable
     \<lparr>config = \<lparr>clientId = ''id'', clientSecret = ''secret'', baseUrl = Some ''https://api.tailscale.com''\<rparr>,
      accessToken = Some '''', tokenExpiry = Some 3600000\<rparr>"
proof -
  let ?cfg = "\<lparr>clientId = ''id'', clientSecret = ''secret'', baseUrl = Omitted\<rparr>"
  let ?init = "\<lparr>config = \<lparr>clientId = ''id'', clientSecret = ''secret'', baseUrl = Some ''https://api.tailscale.com''\<rparr>,
      accessToken = None, tokenExpiry = None\<rparr>"
  have "constructor ?cfg = Inr ?init" by (simp add: oauth_defs)
  then have "reachable ?init" by (rule reachable.constructed)
  moreover have "getAccessToken ?init 0 (Resolved \<lparr>access_token = '''', token_type = ''Bearer'', expires_in = 3600, scope = None\<rparr>) 0
    = (Inr '''', \<lparr>config = \<lparr>clientId = ''id'', clientSecret = ''secret'', baseUrl = Some ''https://api.tailscale.com''\<rparr>,
      accessToken = Some '''', tokenExpiry = Some 3600000\<rparr>, [token_request_of ?init])"
    by (simp add: oauth_defs)
  ultimately show ?thesis by (rule reachable.after_getAccessToken)
qed

text \<open>
  Claim C1 as stated fails for a cached token that is the empty string, which the
  manager holds after the token endpoint has answered with an empty \<open>access_token\<close>:
  with the expiry an hour away, \<open>getAccessToken\<close> sends a token request and returns
  the new token.
\<close>

theorem getAccessToken_counterexample:
  "reachable
     \<lparr>config = \<lparr>clientId = ''id'', clientSecret = ''secret'',
                 baseUrl = Some ''https://api.tailscale.com''\<rparr>,
      accessToken = Some '''', tokenExpiry = Some 3600000\<rparr> \<and>
   (0::int) + 60 * 1000 < 3600000 \<and>
   getAccessToken
     \<lparr>config = \<lparr>clientId = ''id'', clientSecret = ''secret'',
                 baseUrl = Some ''https://api.tailscale.com''\<rparr>,
      accessToken = Some '''', tokenExpiry = Some 3600000\<rparr>
     0
     (Resolved \<lparr>access_token = ''fresh'', token_type = ''Bearer'', expires_in = 3600,
                 scope = None\<rparr>)
     1
   = (Inr ''fresh'',
      \<lparr>config = \<lparr>clientId = ''id'', clientSecret = ''secret'',
                  baseUrl = Some ''https://api.tailscale.com''\<rparr>,
       accessToken = Some ''fresh'', tokenExpiry = Some 3600001\<rparr>,
      [\<lparr>req_url = ''https://api.tailscale.com/api/v2/oauth/token'',
        req_form = [(''client_id'', ''id''), (''client_secret'', ''secret'')],
        req_content_type = ''application/x-www-form-urlencoded'', req_timeout = 30000\<rparr>])"
  using empty_token_reachable by (simp add: oauth_defs)

theorem getAccessToken_cached_or_refresh_witness:
  "getAccessToken
     \<lparr>config = \<lparr>clientId = ''id'', clientSecret = ''secret'', baseUrl = Some ''https://api.tailscale.com''\<rparr>,
      accessToken = Some ''tok'', tokenExpiry = Some 3600000\<rparr>
     3539999 (Rejected (Error ''unused'')) 3540000
   = (Inr ''tok'',
      \<lparr>config = \<lparr>clientId = ''id'', clientSecret = ''secret'', baseUrl = Some ''https://api.tailscale.com''\<rparr>,
       accessToken = Some ''tok'', tokenExpiry = Some 3600000\<rparr>, []) \<and>
   snd (snd (getAccessToken
     \<lparr>config = \<lparr>clientId = ''id'', clientSecret = ''secret'', baseUrl = Some ''https://api.tailscale.com''\<rparr>,
      accessToken = Some ''tok'', tokenExpiry = Some 3600000\<rparr>
     3540000 (Rejected (Error ''down'')) 3540001))
   = [token_request_of
     \<lparr>config = \<lparr>clientId = ''id'', clientSecret = ''secret'', baseUrl = Some ''https://api.tailscale.com''\<rparr>,
      accessToken = Some ''tok'', tokenExpiry = Some 3600000\<rparr>]"
proof -
  let ?m = "\<lparr>config = \<lparr>clientId = ''id'', clientSecret = ''secret'', baseUrl = Some ''https://api.tailscale.com''\<rparr>,
      accessToken = Some ''tok'', tokenExpiry = Some (3600000::int)\<rparr>"
  have a: "accessToken ?m = Some ''tok'' \<and> ''tok'' \<noteq> [] \<and> tokenExpiry ?m = Some 3600000 \<and>
      (3539999::int) + 60 * 1000 < 3600000" by simp
  have b: "\<not> (\<exists>token expiry. accessToken ?m = Some token \<and> token \<noteq> [] \<and>
          tokenExpiry ?m = Some expiry \<and> (3540000::int) + 60 * 1000 < expiry)" by simp
  from a getAccessToken_cached_or_refresh [of ?m "''tok''" 3600000 3539999 "Rejected (Error ''unused'')" 3540000]
  have 1: "getAccessToken ?m 3539999 (Rejected (Error ''unused'')) 3540000 = (Inr ''tok'', ?m, [])"
    by blast
  from b getAccessToken_cached_or_refresh [of ?m "''tok''" 3600000 3540000 "Rejected (Error ''down'')" 3540001]
  have 2: "snd (snd (getAccessToken ?m 3540000 (Rejected (Error ''down'')) 3540001)) = [token_request_of ?m]"
    by blast
  from 1 2 show ?thesis by blast
qed


section \<open>A failed refresh\<close>







section \<open>The default base URL\<close>

lemma omitted_baseUrl_default:
  assumes "baseUrl cfg = Omitted" and "constructor cfg = Inr m"
  shows "req_url (token_request_of m) = ''https://api.tailscale.com/api/v2/oauth/token''"
  using assms by (auto simp: oauth_defs split: if_splits)

text \<open>
  Claim C3 at the input where the code breaks it. With both credentials set and
  \<open>TAILSCALE_API_BASE_URL\<close> unset, \<open>fromEnvironment\<close> passes the constructor a
  \<open>baseUrl\<close> property whose value is \<open>undefined\<close>; the spread copies it over the
  default, and the token request goes to \<open>undefined/api/v2/oauth/token\<close>. A
  configuration that leaves the property out gets the default
  (\<open>omitted_baseUrl_default\<close>).
\<close>

theorem fromEnvironment_unset_base_url:
  "fromEnvironment [''TAILSCALE_OAUTH_CLIENT_ID'' \<mapsto> ''id'', ''TAILSCALE_OAUTH_CLIENT_SECRET'' \<mapsto> ''secret'']
     = Inr (Some \<lparr>config = \<lparr>clientId = ''id'', clientSecret = ''secret'', baseUrl = None\<rparr>,
                  accessToken = None, tokenExpiry = None\<rparr>) \<and>
   req_url (token_request_of
      \<lparr>config = \<lparr>clientId = ''id'', clientSecret = ''secret'', baseUrl = None\<rparr>,
       accessToken = None, tokenExpiry = None\<rparr>) = ''undefined/api/v2/oauth/token''"
  by (simp add: fromEnvironment_def oauth_defs)


section \<open>Credentials\<close>

lemma fromEnvironment_cases:
  "fromEnvironment env =
     (if isConfigured env
      then Inr (Some \<lparr>config = \<lparr>clientId = the (env ''TAILSCALE_OAUTH_CLIENT_ID''),
                                 clientSecret = the (env ''TAILSCALE_OAUTH_CLIENT_SECRET''),
                                 baseUrl = env ''TAILSCALE_API_BASE_URL''\<rparr>,
                       accessToken = None, tokenExpiry = None\<rparr>)
      else Inr None)"
  by (auto simp: fromEnvironment_def isConfigured_def constructor_def spread_defaults_def Let_def
      split: option.splits)

lemma isConfigured_present:
  "isConfigured env \<Longrightarrow>
     env ''TAILSCALE_OAUTH_CLIENT_ID'' \<noteq> None \<and> env ''TAILSCALE_OAUTH_CLIENT_SECRET'' \<noteq> None"
  by (cases "env ''TAILSCALE_OAUTH_CLIENT_ID''"; cases "env ''TAILSCALE_OAUTH_CLIENT_SECRET''")
     (simp_all add: isConfigured_def)

text \<open>
  Claim C8. The constructor throws when the client id or the client secret is empty.
  When either environment variable is unset, \<open>fromEnvironment\<close> returns \<open>null\<close> and
  \<open>isConfigured\<close> returns false; both report a configuration only when both variables
  are set; \<open>fromEnvironment\<close> never throws, and it returns a manager exactly when
  \<open>isConfigured\<close> holds.
\<close>

theorem credentials_required:
  "(clientId cfg = [] \<or> clientSecret cfg = [] \<longrightarrow>
      constructor cfg =
        Inl (Error ''OAuth client ID and secret are required for OAuth authentication'')) \<and>
   (env ''TAILSCALE_OAUTH_CLIENT_ID'' = None \<or> env ''TAILSCALE_OAUTH_CLIENT_SECRET'' = None \<longrightarrow>
      fromEnvironment env = Inr None \<and> \<not> isConfigured env) \<and>
   (isConfigured env \<or> (\<exists>m. fromEnvironment env = Inr (Some m)) \<longrightarrow>
      env ''TAILSCALE_OAUTH_CLIENT_ID'' \<noteq> None \<and> env ''TAILSCALE_OAUTH_CLIENT_SECRET'' \<noteq> None) \<and>
   (\<forall>e. fromEnvironment env \<noteq> Inl e) \<and>
   isConfigured env = (\<exists>m. fromEnvironment env = Inr (Some m))"
proof -
  have 1: "clientId cfg = [] \<or> clientSecret cfg = [] \<longrightarrow>
      constructor cfg =
        Inl (Error ''OAuth client ID and secret are required for OAuth authentication'')"
    by (auto simp: constructor_def spread_defaults_def Let_def)
  have 2: "env ''TAILSCALE_OAUTH_CLIENT_ID'' = None \<or> env ''TAILSCALE_OAUTH_CLIENT_SECRET'' = None \<longrightarrow>
      fromEnvironment env = Inr None \<and> \<not> isConfigured env"
    using isConfigured_present [of env] by (auto simp: fromEnvironment_cases)
  have 3: "isConfigured env \<longrightarrow>
      env ''TAILSCALE_OAUTH_CLIENT_ID'' \<noteq> None \<and> env ''TAILSCALE_OAUTH_CLIENT_SECRET'' \<noteq> None"
    using isConfigured_present [of env] by blast
  have 4: "\<forall>e. fromEnvironment env \<noteq> Inl e" by (simp add: fromEnvironment_cases)
  have 5: "isConfigured env = (\<exists>m. fromEnvironment env = Inr (Some m))"
    by (simp add: fromEnvironment_cases)
  from 1 2 3 4 5 show ?thesis by blast
qed

theorem credentials_required_witness:
  "clientId \<lparr>clientId = '''', clientSecret = ''secret'',
             baseUrl = (Omitted :: string option property)\<rparr> = [] \<and>
   constructor \<lparr>clientId = '''', clientSecret = ''secret'', baseUrl = Omitted\<rparr> =
     Inl (Error ''OAuth client ID and secret are required for OAuth authentication'') \<and>
   [''TAILSCALE_OAUTH_CLIENT_ID'' \<mapsto> ''id''] ''TAILSCALE_OAUTH_CLIENT_SECRET'' = None \<and>
   fromEnvironment [''TAILSCALE_OAUTH_CLIENT_ID'' \<mapsto> ''id''] = Inr None \<and>
   \<not> isConfigured [''TAILSCALE_OAUTH_CLIENT_ID'' \<mapsto> ''id''] \<and>
   isConfigured [''TAILSCALE_OAUTH_CLIENT_ID'' \<mapsto> ''id'',
                 ''TAILSCALE_OAUTH_CLIENT_SECRET'' \<mapsto> ''secret''] \<and>
   (\<exists>m. fromEnvironment [''TAILSCALE_OAUTH_CLIENT_ID'' \<mapsto> ''id'',
                            ''TAILSCALE_OAUTH_CLIENT_SECRET'' \<mapsto> ''secret''] = Inr (Some m)) \<and>
   [''TAILSCALE_OAUTH_CLIENT_ID'' \<mapsto> ''id'',
    ''TAILSCALE_OAUTH_CLIENT_SECRET'' \<mapsto> ''secret''] ''TAILSCALE_OAUTH_CLIENT_SECRET'' \<noteq> None"
proof -
  let ?cfg = "\<lparr>clientId = '''', clientSecret = ''secret'',
                baseUrl = (Omitted :: string option property)\<rparr>"
  let ?env = "[''TAILSCALE_OAUTH_CLIENT_ID'' \<mapsto> ''id'']"
  let ?both = "[''TAILSCALE_OAUTH_CLIENT_ID'' \<mapsto> ''id'',
                ''TAILSCALE_OAUTH_CLIENT_SECRET'' \<mapsto> ''secret'']"
  have a: "clientId ?cfg = []" by simp
  have b: "?env ''TAILSCALE_OAUTH_CLIENT_SECRET'' = None" by simp
  have c: "isConfigured ?both" by (simp add: isConfigured_def)
  from a b credentials_required [of ?cfg ?env]
  have 1: "constructor ?cfg =
      Inl (Error ''OAuth client ID and secret are required for OAuth authentication'') \<and>
      fromEnvironment ?env = Inr None \<and> \<not> isConfigured ?env"
    by blast
  from c credentials_required [of ?cfg ?both]
  have 2: "(\<exists>m. fromEnvironment ?both = Inr (Some m)) \<and>
      ?both ''TAILSCALE_OAUTH_CLIENT_SECRET'' \<noteq> None"
    by blast
  from a b c 1 2 show ?thesis by blast
qed


section \<open>Token and expiry are set and cleared together\<close>









end
